theory Spec2Isabelle
  imports Main
begin

section \<open>Diagnostics and their projection onto the widget\<close>

text \<open>
  The parser's \<open>DiagnosticSeverity\<close> is a numeric enumeration (Error = 0, Warning = 1,
  Information = 2, Hint = 3). At run time any other number may arrive, so a severity is
  kept as an integer and the four recognised values are named constants.
\<close>

type_synonym DiagnosticSeverity = int

definition DiagnosticSeverity_Error :: DiagnosticSeverity where
  "DiagnosticSeverity_Error = 0"

definition DiagnosticSeverity_Warning :: DiagnosticSeverity where
  "DiagnosticSeverity_Warning = 1"

definition DiagnosticSeverity_Information :: DiagnosticSeverity where
  "DiagnosticSeverity_Information = 2"

definition DiagnosticSeverity_Hint :: DiagnosticSeverity where
  "DiagnosticSeverity_Hint = 3"


text \<open>The widget's marker severities.\<close>

datatype MarkerSeverity = MarkerHint | MarkerInfo | MarkerWarning | MarkerError

record Position =
  line :: int
  character :: int

record DiagnosticRange =
  start :: Position
  end_pos :: Position

record Diagnostic =
  message :: string
  diag_range :: DiagnosticRange
  severity :: DiagnosticSeverity

text \<open>
  The widget's \<open>Range\<close>. Its constructor orders the two end points: when the start given
  lies after the end given, the two are exchanged.
\<close>

record Range =
  startLineNumber :: int
  startColumn :: int
  endLineNumber :: int
  endColumn :: int

definition new_Range :: "int \<Rightarrow> int \<Rightarrow> int \<Rightarrow> int \<Rightarrow> Range" where
  "new_Range sl sc el ec =
     (if sl > el \<or> (sl = el \<and> sc > ec)
      then \<lparr>startLineNumber = el, startColumn = ec, endLineNumber = sl, endColumn = sc\<rparr>
      else \<lparr>startLineNumber = sl, startColumn = sc, endLineNumber = el, endColumn = ec\<rparr>)"

record IMarkerData =
  m_startLineNumber :: int
  m_startColumn :: int
  m_endLineNumber :: int
  m_endColumn :: int
  m_severity :: MarkerSeverity
  m_message :: string

record DecorationOptions =
  glyphMarginClassName :: string
  glyphMarginHoverMessage :: string

record IModelDecoration =
  dec_id :: string
  ownerId :: nat
  dec_range :: Range
  options :: DecorationOptions

record MarkersAndDecorations =
  decorations :: "IModelDecoration list"
  markers :: "IMarkerData list"

text \<open>The decimal text of an array index, as a template literal prints it.\<close>

definition digit :: "nat \<Rightarrow> char" where
  "digit n = ''0123456789'' ! n"

function toString :: "nat \<Rightarrow> string" where
  "toString n = (if n < 10 then [digit n] else toString (n div 10) @ [digit (n mod 10)])"
  by pat_completeness auto
termination
  by (relation "measure (\<lambda>n. n)") auto

declare toString.simps [simp del]

definition getSeverity :: "DiagnosticSeverity \<Rightarrow> MarkerSeverity" where
  "getSeverity sev =
     (if sev = DiagnosticSeverity_Error then MarkerError
      else if sev = DiagnosticSeverity_Warning then MarkerWarning
      else if sev = DiagnosticSeverity_Information then MarkerInfo
      else if sev = DiagnosticSeverity_Hint then MarkerHint
      else MarkerError)"

definition getSeverityClassName :: "DiagnosticSeverity \<Rightarrow> string" where
  "getSeverityClassName sev =
     (if sev = DiagnosticSeverity_Warning then ''diagnostic-warning''
      else if sev = DiagnosticSeverity_Information then ''diagnostic-information''
      else if sev = DiagnosticSeverity_Hint then ''diagnostic-hint''
      else ''diagnostic-warning'')"

text \<open>The two records the body of the \<open>forEach\<close> callback builds.\<close>

definition mkDecoration :: "nat \<Rightarrow> Diagnostic \<Rightarrow> IModelDecoration" where
  "mkDecoration idx diagnostic =
     \<lparr>dec_id = getSeverityClassName (severity diagnostic) @ ''-'' @ toString idx,
      ownerId = 0,
      dec_range = new_Range
        (line (start (diag_range diagnostic)) + 1)
        (character (start (diag_range diagnostic)) + 1)
        (line (end_pos (diag_range diagnostic)) + 1)
        (character (end_pos (diag_range diagnostic)) + 1),
      options = \<lparr>glyphMarginClassName = getSeverityClassName (severity diagnostic),
                 glyphMarginHoverMessage = message diagnostic\<rparr>\<rparr>"

definition mkMarker :: "Diagnostic \<Rightarrow> IMarkerData" where
  "mkMarker diagnostic =
     \<lparr>m_startLineNumber = line (start (diag_range diagnostic)) + 1,
      m_startColumn = character (start (diag_range diagnostic)) + 1,
      m_endLineNumber = line (end_pos (diag_range diagnostic)) + 1,
      m_endColumn = character (end_pos (diag_range diagnostic)) + 1,
      m_severity = getSeverity (severity diagnostic),
      m_message = message diagnostic\<rparr>"

text \<open>
  \<open>diagnostics.forEach((diagnostic, idx) => ...)\<close>: the index counts every element of
  the input, and the two output arrays grow by \<open>push\<close>.
\<close>

fun forEach_diagnostic ::
  "nat \<Rightarrow> Diagnostic list \<Rightarrow> MarkersAndDecorations \<Rightarrow> MarkersAndDecorations" where
  "forEach_diagnostic idx [] acc = acc"
| "forEach_diagnostic idx (diagnostic # rest) acc =
     (if severity diagnostic \<noteq> DiagnosticSeverity_Error
      then forEach_diagnostic (Suc idx) rest
             (acc\<lparr>decorations := decorations acc @ [mkDecoration idx diagnostic]\<rparr>)
      else forEach_diagnostic (Suc idx) rest
             (acc\<lparr>markers := markers acc @ [mkMarker diagnostic]\<rparr>))"

definition createMarkersAndDecorations :: "Diagnostic list \<Rightarrow> MarkersAndDecorations" where
  "createMarkersAndDecorations diagnostics =
     forEach_diagnostic 0 diagnostics \<lparr>decorations = [], markers = []\<rparr>"


section \<open>The editing widget\<close>

text \<open>
  The widget is a collaborator. Its operations are modelled as the service uses them: text
  models are created, read, written and disposed; the editor is bound to at most one text
  model at a time, saves and restores a view state, and changes the decorations of the
  text model it is bound to by deltas; marker sets are kept per text model and owner.

  A text model is an object: its identity is a reference number, its URI and language never
  change, and its text, its disposed flag and its decorations live in the store of the
  widget. A view state is opaque to the service; it is a number here. The identifier of a
  decoration is made of the reference of the text model that issued it and of a counter
  of that text model.
\<close>

datatype ITextModel = ITextModel (model_ref: nat) (model_uri: string) (model_language: string)

type_synonym ICodeEditorViewState = nat

type_synonym decoration_handle = "nat \<times> nat"

record Monaco =
  Uri_parse_toString :: "string \<Rightarrow> string"
  next_ref :: nat
  model_value :: "nat \<Rightarrow> string"
  model_disposed :: "nat \<Rightarrow> bool"
  model_markers :: "nat \<times> string \<Rightarrow> IMarkerData list"
  model_decorations :: "nat \<Rightarrow> decoration_handle \<rightharpoonup> nat \<times> IModelDecoration"
  model_lastDecorationId :: "nat \<Rightarrow> nat"

record IStandaloneCodeEditor =
  editor_id :: nat
  bound_model :: "ITextModel option"
  view :: ICodeEditorViewState
  hasFocus :: bool

text \<open>
  \<open>monaco.editor.createModel(content, language, uri)\<close> gives a new text model, with no
  decoration; the text of its URI is what \<open>model.uri.toString()\<close> reads later.
\<close>

definition monaco_createModel ::
  "string \<Rightarrow> string \<Rightarrow> string \<Rightarrow> Monaco \<Rightarrow> ITextModel \<times> Monaco" where
  "monaco_createModel text lang file_uri m =
     (ITextModel (next_ref m) (Uri_parse_toString m file_uri) lang,
      m\<lparr>next_ref := Suc (next_ref m),
        model_value := (model_value m)(next_ref m := text),
        model_disposed := (model_disposed m)(next_ref m := False),
        model_decorations := (model_decorations m)(next_ref m := Map.empty),
        model_lastDecorationId := (model_lastDecorationId m)(next_ref m := 0)\<rparr>)"

definition model_getValue :: "ITextModel \<Rightarrow> Monaco \<Rightarrow> string" where
  "model_getValue model m = model_value m (model_ref model)"

definition setModelMarkers ::
  "ITextModel \<Rightarrow> string \<Rightarrow> IMarkerData list \<Rightarrow> Monaco \<Rightarrow> Monaco" where
  "setModelMarkers model owner ms m =
     m\<lparr>model_markers := (model_markers m)((model_ref model, owner) := ms)\<rparr>"

text \<open>
  \<open>model.removeAllDecorationsWithOwnerId(owner)\<close>: every decoration of the text model
  that this owner made leaves it; a disposed text model is left alone.
\<close>

definition removeAllDecorationsWithOwnerId :: "nat \<Rightarrow> ITextModel \<Rightarrow> Monaco \<Rightarrow> Monaco" where
  "removeAllDecorationsWithOwnerId owner model m =
     (if model_disposed m (model_ref model) then m
      else m\<lparr>model_decorations := (model_decorations m)(model_ref model :=
               (\<lambda>h. case model_decorations m (model_ref model) h of
                      None \<Rightarrow> None
                    | Some (ow, d) \<Rightarrow> if ow = owner then None else Some (ow, d)))\<rparr>)"

definition initial_view :: ICodeEditorViewState where
  "initial_view = 0"

definition saveViewState :: "IStandaloneCodeEditor \<Rightarrow> ICodeEditorViewState option" where
  "saveViewState e = (case bound_model e of None \<Rightarrow> None | Some _ \<Rightarrow> Some (view e))"

text \<open>
  \<open>editor.setModel(model)\<close>: nothing happens when the editor is already bound to that
  text model (or to none, when none is given). Otherwise the editor leaves the text model
  it was bound to, is bound to the new one with a fresh view, keeps the focus only if
  it is bound to a text model, and the decorations the editor made on the text model it
  left are removed from it.
\<close>

definition setModel ::
  "ITextModel option \<Rightarrow> IStandaloneCodeEditor \<Rightarrow> Monaco \<Rightarrow> IStandaloneCodeEditor \<times> Monaco" where
  "setModel model e m =
     (if bound_model e = model then (e, m)
      else (e\<lparr>bound_model := model, view := initial_view,
              hasFocus := (case model of None \<Rightarrow> False | Some _ \<Rightarrow> hasFocus e)\<rparr>,
            case bound_model e of
              None \<Rightarrow> m
            | Some detached \<Rightarrow> removeAllDecorationsWithOwnerId (editor_id e) detached m))"

definition focus :: "IStandaloneCodeEditor \<Rightarrow> IStandaloneCodeEditor" where
  "focus e = e\<lparr>hasFocus := True\<rparr>"

text \<open>\<open>editor.restoreViewState(state)\<close> does nothing when no text model is bound.\<close>

definition restoreViewState ::
  "ICodeEditorViewState \<Rightarrow> IStandaloneCodeEditor \<Rightarrow> IStandaloneCodeEditor" where
  "restoreViewState v e = (case bound_model e of None \<Rightarrow> e | Some _ \<Rightarrow> e\<lparr>view := v\<rparr>)"

text \<open>
  \<open>model.dispose()\<close>: an editor bound to the text model is told first and unbinds itself
  (\<open>setModel(null)\<close>); then the text model is disposed.
\<close>

definition model_dispose ::
  "ITextModel \<Rightarrow> IStandaloneCodeEditor option \<Rightarrow> Monaco \<Rightarrow>
   IStandaloneCodeEditor option \<times> Monaco" where
  "model_dispose model inst m =
     (let (inst1, m1) =
            (case inst of
               None \<Rightarrow> (None, m)
             | Some e \<Rightarrow>
                 if bound_model e = Some model
                 then (let (e1, m') = setModel None e m in (Some e1, m'))
                 else (Some e, m))
      in (inst1, m1\<lparr>model_disposed := (model_disposed m1)(model_ref model := True)\<rparr>))"

text \<open>
  The delta of decorations of one text model, as its loop runs: the old identifiers and
  the new decorations are walked together. Each round takes the next old identifier that
  still names a decoration, skipping those that name none. While new decorations are
  left, the next one is stored under that identifier, which is so reused, or under a
  fresh one (the counter of the text model, advanced) when no old identifier is left, and
  the identifier is returned at its place. Once the new decorations are used up, the
  decorations of the old identifiers still left are deleted. A decoration is stored with
  its owner, as it is handed over; how the widget fits its range to the text is not part
  of the model.
\<close>

fun deltaDecorationsImpl ::
  "nat \<Rightarrow> nat \<Rightarrow> decoration_handle list \<Rightarrow> IModelDecoration list \<Rightarrow>
   (decoration_handle \<rightharpoonup> nat \<times> IModelDecoration) \<Rightarrow> nat \<Rightarrow>
   decoration_handle list \<times> (decoration_handle \<rightharpoonup> nat \<times> IModelDecoration) \<times> nat" where
  "deltaDecorationsImpl inst owner old [] ds lst =
     ([], (\<lambda>h. if h \<in> set old then None else ds h), lst)"
| "deltaDecorationsImpl inst owner old (d # new) ds lst =
     (case dropWhile (\<lambda>h. ds h = None) old of
        [] \<Rightarrow>
          (case deltaDecorationsImpl inst owner [] new
                  (ds((inst, Suc lst) \<mapsto> (owner, d))) (Suc lst) of
             (r, st) \<Rightarrow> ((inst, Suc lst) # r, st))
      | h # rest \<Rightarrow>
          (case deltaDecorationsImpl inst owner rest new (ds(h \<mapsto> (owner, d))) lst of
             (r, st) \<Rightarrow> (h # r, st)))"

text \<open>
  \<open>editor.deltaDecorations(old, new)\<close>: with no text model bound the result is the empty
  list and nothing changes; otherwise the delta is that of the bound text model, with the
  editor as the owner.
\<close>

definition deltaDecorations ::
  "decoration_handle list \<Rightarrow> IModelDecoration list \<Rightarrow> IStandaloneCodeEditor \<Rightarrow> Monaco \<Rightarrow>
   decoration_handle list \<times> Monaco" where
  "deltaDecorations oldDecorations newDecorations e m =
     (case bound_model e of
        None \<Rightarrow> ([], m)
      | Some b \<Rightarrow>
          (case deltaDecorationsImpl (model_ref b) (editor_id e) oldDecorations newDecorations
                  (model_decorations m (model_ref b)) (model_lastDecorationId m (model_ref b)) of
             (handles, ds, lst) \<Rightarrow>
               (handles,
                m\<lparr>model_decorations := (model_decorations m)(model_ref b := ds),
                  model_lastDecorationId := (model_lastDecorationId m)(model_ref b := lst)\<rparr>)))"

section \<open>The state of the service and of its collaborators\<close>

record File =
  f_uri :: string
  f_content :: string
  f_language :: string

record Partial_File =
  p_uri :: "string option"
  p_content :: "string option"
  p_language :: "string option"
  p_source :: "string option"
  p_from :: "string option"
  p_modified :: "bool option"

record EditorTab =
  tab_uri :: string

record Document =
  doc_uri :: string
  filtered :: "Diagnostic list"

record EditorState =
  autoSaving :: bool
  savingDelay :: nat

record 'g SettingsState =
  editor :: EditorState
  governance :: 'g

text \<open>
  Modelled from the spec: the \<open>debounce\<close> helper of the repository's helpers module, which
  is not among the sources. Section 4.4: on every call a scheduled flush is cancelled and
  a new one is scheduled after the delay. The debounced function is its delay, fixed when
  it is built, and the time at which the pending flush fires, if one is pending.
\<close>

record debounced =
  wait :: nat
  timeout :: "nat option"

text \<open>
  Modelled from the spec: \<open>debounce(f, delay)\<close> of the helpers module. The debounced
  function starts with the delay it is given and with no flush pending.
\<close>

definition debounce :: "nat \<Rightarrow> debounced" where
  "debounce delay = \<lparr>wait = delay, timeout = None\<rparr>"

text \<open>
  Modelled from the spec: a call of the debounced function of the helpers module at time
  \<open>now\<close>. Section 4.4: a scheduled flush is cancelled and a new one is scheduled after
  the delay.
\<close>

definition debounced_call :: "nat \<Rightarrow> debounced \<Rightarrow> debounced" where
  "debounced_call now d = d\<lparr>timeout := Some (now + wait d)\<rparr>"

text \<open>
  The fields of the service (\<open>this.instance\<close>, \<open>this.models\<close>, \<open>this.viewStates\<close>,
  \<open>this.decorations\<close>), the widget, and what the service reads from or hands to the other
  collaborators: the file registry, the local storage, the calls made to the parser (with
  the time of the call), to the socket client and to the registry's \<open>updateFile\<close>, the
  listener subscribed to the content changes of the editor, and the flushes still pending
  in debounced functions whose subscription was disposed.
\<close>

record EditorService =
  this_instance :: "IStandaloneCodeEditor option"
  this_models :: "string \<rightharpoonup> ITextModel option"
  this_viewStates :: "string \<rightharpoonup> ICodeEditorViewState option"
  this_decorations :: "string \<rightharpoonup> decoration_handle list"
  monaco :: Monaco
  files :: "string \<rightharpoonup> File"
  localStorage :: "string \<rightharpoonup> string"
  parserSvc_parse :: "(nat \<times> string \<times> string) list"
  socketClientSvc_send :: "(string \<times> string) list"
  filesSvc_updateFile :: "(string \<times> Partial_File) list"
  listener :: "debounced option"
  orphan_timers :: "nat list"

section \<open>The handle cache\<close>

text \<open>
  Modelled from the spec: \<open>filesSvc.getFile\<close>, not among the sources. Section 6: the
  registry gives the resource of an identifier, or nothing.
\<close>

definition getFile :: "string \<Rightarrow> EditorService \<Rightarrow> File option" where
  "getFile uri s = files s uri"

definition createModel ::
  "string \<Rightarrow> File option \<Rightarrow> EditorService \<Rightarrow> ITextModel option \<times> EditorService" where
  "createModel uri file s =
     (if this_models s uri \<noteq> None then (None, s)
      else case (case file of Some f \<Rightarrow> Some f | None \<Rightarrow> getFile uri s) of
             None \<Rightarrow> (None, s)
           | Some f \<Rightarrow>
               (let (model, m) = monaco_createModel (f_content f) (f_language f) (f_uri f) (monaco s)
                in (Some model,
                    s\<lparr>monaco := m, this_models := (this_models s)(uri \<mapsto> Some model)\<rparr>)))"

definition getModel :: "string \<Rightarrow> EditorService \<Rightarrow> ITextModel option \<times> EditorService" where
  "getModel uri s =
     (case this_models s uri of
        Some (Some model) \<Rightarrow> (Some model, s)
      | _ \<Rightarrow> createModel uri None s)"

definition getCurrentModel :: "EditorService \<Rightarrow> ITextModel option" where
  "getCurrentModel s = (case this_instance s of None \<Rightarrow> None | Some e \<Rightarrow> bound_model e)"

definition removeModel :: "string \<Rightarrow> EditorService \<Rightarrow> bool option \<times> EditorService" where
  "removeModel uri s =
     (case this_models s uri of
        Some (Some model) \<Rightarrow>
          (let (inst, m) = model_dispose model (this_instance s) (monaco s)
           in (Some True,
               s\<lparr>this_instance := inst, monaco := m,
                 this_models := (this_models s)(uri := None)\<rparr>))
      | _ \<Rightarrow> (None, s))"

section \<open>Content changes and the debounced analysis call\<close>

text \<open>
  The function handed to \<open>debounce\<close> in \<open>onChangeContent\<close>: when a text model is
  bound, its full text is read at that moment and passed to the parser with the text of
  its URI. The time of the call is recorded with it.
\<close>

definition onChangeContent_flush :: "nat \<Rightarrow> EditorService \<Rightarrow> EditorService" where
  "onChangeContent_flush now s =
     (case getCurrentModel s of
        None \<Rightarrow> s
      | Some model \<Rightarrow>
          s\<lparr>parserSvc_parse :=
              parserSvc_parse s @ [(now, model_uri model, model_getValue model (monaco s))]\<rparr>)"

definition onChangeContent :: "'g SettingsState \<Rightarrow> debounced" where
  "onChangeContent settings = debounce (savingDelay (editor settings))"

text \<open>
  \<open>configureEditor\<close> subscribes the debounced function built from the settings read at
  that moment (its first argument is what \<open>settingsSvc.get()\<close> returns). The handler of
  \<open>settings.update\<close> returns when the governance part is unchanged; otherwise the
  subscription is disposed and a new debounced function, built from the settings read
  then, is subscribed. Disposing a subscription does not cancel a flush that the old
  debounced function has pending.
\<close>

definition configureEditor :: "'g SettingsState \<Rightarrow> EditorService \<Rightarrow> EditorService" where
  "configureEditor current s = s\<lparr>listener := Some (onChangeContent current)\<rparr>"

definition on_settings_update ::
  "'g SettingsState \<Rightarrow> 'g SettingsState \<Rightarrow> 'g SettingsState \<Rightarrow> EditorService \<Rightarrow> EditorService" where
  "on_settings_update current settings prevSettings s =
     (if governance settings = governance prevSettings then s
      else case listener s of
             None \<Rightarrow> s
           | Some d \<Rightarrow>
               s\<lparr>orphan_timers :=
                   orphan_timers s @ (case timeout d of None \<Rightarrow> [] | Some t \<Rightarrow> [t]),
                 listener := Some (onChangeContent current)\<rparr>)"

text \<open>
  The widget notifies the subscribed listener of a content change of the bound text
  model: the debounced function is called.
\<close>

definition onDidChangeModelContent :: "nat \<Rightarrow> EditorService \<Rightarrow> EditorService" where
  "onDidChangeModelContent now s =
     (case listener s of
        None \<Rightarrow> s
      | Some d \<Rightarrow> s\<lparr>listener := Some (debounced_call now d)\<rparr>)"

text \<open>
  \<open>model.setValue(text)\<close> on the text model bound to the editor, and an edit typed by
  the user, both replace the text and notify the listener.
\<close>

definition model_setValue :: "nat \<Rightarrow> ITextModel \<Rightarrow> string \<Rightarrow> EditorService \<Rightarrow> EditorService" where
  "model_setValue now model text s =
     onDidChangeModelContent now
       (s\<lparr>monaco := (monaco s)\<lparr>model_value := (model_value (monaco s))(model_ref model := text)\<rparr>\<rparr>)"

definition content_change :: "nat \<Rightarrow> string \<Rightarrow> EditorService \<Rightarrow> EditorService" where
  "content_change now text s =
     (case getCurrentModel s of
        None \<Rightarrow> s
      | Some model \<Rightarrow> model_setValue now model text s)"

text \<open>
  Time passes up to \<open>now\<close>: every pending flush that is due fires, the earliest first.
\<close>

definition due_timers :: "nat \<Rightarrow> EditorService \<Rightarrow> nat list" where
  "due_timers now s =
     sort (filter (\<lambda>t. t \<le> now)
       (orphan_timers s @
        (case listener s of
           None \<Rightarrow> []
         | Some d \<Rightarrow> (case timeout d of None \<Rightarrow> [] | Some t \<Rightarrow> [t]))))"

definition clear_due :: "nat \<Rightarrow> EditorService \<Rightarrow> EditorService" where
  "clear_due now s =
     s\<lparr>orphan_timers := filter (\<lambda>t. \<not> t \<le> now) (orphan_timers s),
       listener :=
         (case listener s of
            None \<Rightarrow> None
          | Some d \<Rightarrow>
              Some (case timeout d of
                      None \<Rightarrow> d
                    | Some t \<Rightarrow> if t \<le> now then d\<lparr>timeout := None\<rparr> else d))\<rparr>"

definition advance :: "nat \<Rightarrow> EditorService \<Rightarrow> EditorService" where
  "advance now s = fold onChangeContent_flush (due_timers now s) (clear_due now s)"

text \<open>
  A run of content changes, each with its time and the full text of the buffer after it.
\<close>

fun changes :: "(nat \<times> string) list \<Rightarrow> EditorService \<Rightarrow> EditorService" where
  "changes [] s = s"
| "changes ((t, text) # rest) s = changes rest (content_change t text (advance t s))"

text \<open>
  The changes arrive within one debounce window: in the order of their times, and each
  before the flush scheduled by the one before it is due.
\<close>

fun within_window :: "nat \<Rightarrow> (nat \<times> string) list \<Rightarrow> bool" where
  "within_window w [] = True"
| "within_window w [c] = True"
| "within_window w (c1 # c2 # rest) =
     (fst c1 \<le> fst c2 \<and> fst c2 < fst c1 + w \<and> within_window w (c2 # rest))"

section \<open>Switching tabs\<close>

text \<open>
  \<open>onChangeTab\<close> returns, or throws a \<open>TypeError\<close> when the handle is found and
  there is no editor to bind it to (\<open>this.editor.setModel\<close> on \<open>undefined\<close>); what was
  written before the throw stays written.
\<close>

datatype outcome = Returned | TypeError

definition onChangeTab :: "EditorTab \<Rightarrow> EditorService \<Rightarrow> outcome \<times> EditorService" where
  "onChangeTab newTab s =
     (let s1 = (case getCurrentModel s of
                  None \<Rightarrow> s
                | Some oldModel \<Rightarrow>
                    (case this_instance s of
                       None \<Rightarrow> s
                     | Some e \<Rightarrow>
                         s\<lparr>this_viewStates :=
                             (this_viewStates s)(model_uri oldModel \<mapsto> saveViewState e)\<rparr>));
          (found, s2) = getModel (tab_uri newTab) s1
      in case found of
           None \<Rightarrow> (Returned, s2)
         | Some model \<Rightarrow>
             (case this_instance s2 of
                None \<Rightarrow> (TypeError, s2)
              | Some e \<Rightarrow>
                  (let (e0, m) = setModel (Some model) e (monaco s2);
                       e1 = focus e0;
                       e2 = (case this_viewStates s2 (model_uri model) of
                               Some (Some restoredViewState) \<Rightarrow> restoreViewState restoredViewState e1
                             | _ \<Rightarrow> e1)
                   in (Returned, s2\<lparr>this_instance := Some e2, monaco := m\<rparr>))))"

text \<open>
  Between two switches the user moves the cursor or scrolls: the live view state of the
  editor changes.
\<close>

definition user_moves :: "ICodeEditorViewState \<Rightarrow> EditorService \<Rightarrow> EditorService" where
  "user_moves v s = s\<lparr>this_instance := map_option (\<lambda>e. e\<lparr>view := v\<rparr>) (this_instance s)\<rparr>"

section \<open>Markers and decorations of a document\<close>

text \<open>\<open>this.decorations.get(uri) || []\<close>\<close>

definition cached_handles :: "string \<Rightarrow> EditorService \<Rightarrow> decoration_handle list" where
  "cached_handles uri s = (case this_decorations s uri of Some hs \<Rightarrow> hs | None \<Rightarrow> [])"

definition applyMarkersAndDecorations :: "Document \<Rightarrow> EditorService \<Rightarrow> EditorService" where
  "applyMarkersAndDecorations document s =
     (let (found, s1) = getModel (doc_uri document) s
      in case found of
           None \<Rightarrow> s1
         | Some model \<Rightarrow>
             (case this_instance s1 of
                None \<Rightarrow> s1
              | Some e \<Rightarrow>
                  (let r = createMarkersAndDecorations (filtered document);
                       m = setModelMarkers model (doc_uri document) (markers r) (monaco s1);
                       oldDecorations = cached_handles (doc_uri document) s1;
                       (newHandles, m1) = deltaDecorations oldDecorations (decorations r) e m
                   in s1\<lparr>monaco := m1,
                        this_decorations := (this_decorations s1)(doc_uri document \<mapsto> newHandles)\<rparr>)))"

definition removeMarkersAndDecorations :: "Document \<Rightarrow> EditorService \<Rightarrow> EditorService" where
  "removeMarkersAndDecorations document s =
     (let (found, s1) = getModel (doc_uri document) s
      in case found of
           None \<Rightarrow> s1
         | Some model \<Rightarrow>
             (case this_instance s1 of
                None \<Rightarrow> s1
              | Some e \<Rightarrow>
                  (let m = setModelMarkers model (doc_uri document) [] (monaco s1);
                       oldDecorations = cached_handles (doc_uri document) s1;
                       (newHandles, m1) = deltaDecorations oldDecorations [] e m
                   in s1\<lparr>monaco := m1,
                        this_decorations := (this_decorations s1)(doc_uri document \<mapsto> newHandles)\<rparr>)))"

section \<open>The handlers of the lifecycle events\<close>

definition on_fs_file_remove :: "File \<Rightarrow> EditorService \<Rightarrow> EditorService" where
  "on_fs_file_remove file s = snd (removeModel (f_uri file) s)"

definition on_document_create :: "Document \<Rightarrow> EditorService \<Rightarrow> EditorService" where
  "on_document_create document s = applyMarkersAndDecorations document s"

definition on_document_update :: "Document \<Rightarrow> EditorService \<Rightarrow> EditorService" where
  "on_document_update document s = applyMarkersAndDecorations document s"

definition on_document_remove :: "Document \<Rightarrow> EditorService \<Rightarrow> EditorService" where
  "on_document_remove document s = removeMarkersAndDecorations document s"

section \<open>Injecting content: \<open>updateState\<close>\<close>

text \<open>
  The argument of \<open>updateState\<close>. A content that is not a string at run time is \<open>None\<close>;
  an optional field left out is \<open>None\<close> and takes its default (\<open>updateModel = false\<close>,
  \<open>sendToServer = true\<close>, \<open>file = {}\<close>).
\<close>

record UpdateState =
  content :: "string option"
  updateModel :: "bool option"
  sendToServer :: "bool option"
  u_file :: "Partial_File option"

definition empty_file :: Partial_File where
  "empty_file = \<lparr>p_uri = None, p_content = None, p_language = None, p_source = None,
                  p_from = None, p_modified = None\<rparr>"

definition effective_file :: "UpdateState \<Rightarrow> Partial_File" where
  "effective_file args = (case u_file args of None \<Rightarrow> empty_file | Some pf \<Rightarrow> pf)"

text \<open>
  \<open>file.language || retrieveLangauge(content)\<close>, and then \<open>!language\<close>: an empty string
  counts as no language. \<open>retrieveLangauge\<close> belongs to the format service, which is not
  among the sources; it is a parameter.
\<close>

definition truthy :: "string option \<Rightarrow> bool" where
  "truthy x = (case x of None \<Rightarrow> False | Some v \<Rightarrow> v \<noteq> [])"

definition resolve_language ::
  "(string \<Rightarrow> string option) \<Rightarrow> Partial_File \<Rightarrow> string \<Rightarrow> string option" where
  "resolve_language retrieveLangauge f text =
     (if truthy (p_language f) then p_language f else retrieveLangauge text)"

text \<open>The object handed to \<open>updateFile\<close>: three computed fields, overridden by those of \<open>file\<close>.\<close>

definition update_patch :: "string option \<Rightarrow> string \<Rightarrow> bool \<Rightarrow> Partial_File \<Rightarrow> Partial_File" where
  "update_patch language text modified f =
     f\<lparr>p_language := (case p_language f of None \<Rightarrow> language | Some l \<Rightarrow> Some l),
       p_content := (case p_content f of None \<Rightarrow> Some text | Some c \<Rightarrow> Some c),
       p_modified := (case p_modified f of None \<Rightarrow> Some modified | Some b \<Rightarrow> Some b)\<rparr>"

definition getFromLocalStorage :: "EditorService \<Rightarrow> string option" where
  "getFromLocalStorage s = localStorage s ''document''"

definition updateState ::
  "(string \<Rightarrow> string option) \<Rightarrow> nat \<Rightarrow> UpdateState \<Rightarrow> EditorService \<Rightarrow> EditorService" where
  "updateState retrieveLangauge now args s =
     (let update_model = (case updateModel args of None \<Rightarrow> False | Some b \<Rightarrow> b);
          send_to_server = (case sendToServer args of None \<Rightarrow> True | Some b \<Rightarrow> b);
          f = effective_file args;
          currentContent = map_option f_content (files s ''asyncapi'')
      in case content args of
           None \<Rightarrow> s
         | Some text \<Rightarrow>
             if currentContent = Some text then s
             else
               (let language = resolve_language retrieveLangauge f text
                in if \<not> truthy language then s
                   else
                     (let s1 = (if send_to_server
                                then s\<lparr>socketClientSvc_send :=
                                         socketClientSvc_send s @ [(''file:update'', text)]\<rparr>
                                else s);
                          s2 = (if update_model
                                then (case getCurrentModel s1 of
                                        None \<Rightarrow> s1
                                      | Some model \<Rightarrow> model_setValue now model text s1)
                                else s1)
                      in s2\<lparr>filesSvc_updateFile :=
                              filesSvc_updateFile s2 @
                              [(''asyncapi'',
                                update_patch language text (getFromLocalStorage s2 \<noteq> Some text) f)]\<rparr>)))"

section \<open>Sequences of operations on the handle cache\<close>

datatype cache_op = GetModel string | CreateModel string "File option" | RemoveModel string

fun cache_step :: "cache_op \<Rightarrow> EditorService \<Rightarrow> EditorService" where
  "cache_step (GetModel uri) s = snd (getModel uri s)"
| "cache_step (CreateModel uri f) s = snd (createModel uri f s)"
| "cache_step (RemoveModel uri) s = snd (removeModel uri s)"

definition cache_steps :: "cache_op list \<Rightarrow> EditorService \<Rightarrow> EditorService" where
  "cache_steps ops s = fold cache_step ops s"

section \<open>Example states\<close>

text \<open>
  A widget that prints the URI of a file name with the scheme \<open>file\<close>, an editor with no
  text model bound, and a registry of three files. The theorems below are universal; these
  states serve to run them on concrete inputs.
\<close>

definition example_monaco :: Monaco where
  "example_monaco =
     \<lparr>Uri_parse_toString = (\<lambda>u. ''file:///'' @ u), next_ref = 0, model_value = (\<lambda>_. []),
      model_disposed = (\<lambda>_. False), model_markers = (\<lambda>_. []),
      model_decorations = (\<lambda>_. Map.empty), model_lastDecorationId = (\<lambda>_. 0)\<rparr>"

definition example_editor :: IStandaloneCodeEditor where
  "example_editor =
     \<lparr>editor_id = 1, bound_model = None, view = 0, hasFocus = False\<rparr>"

definition example_files :: "string \<rightharpoonup> File" where
  "example_files =
     [''a.yaml'' \<mapsto> \<lparr>f_uri = ''a.yaml'', f_content = ''a: 1'', f_language = ''yaml''\<rparr>,
      ''b.json'' \<mapsto> \<lparr>f_uri = ''b.json'', f_content = ''{}'', f_language = ''json''\<rparr>,
      ''asyncapi'' \<mapsto> \<lparr>f_uri = ''asyncapi'', f_content = ''old'', f_language = ''yaml''\<rparr>]"

definition example_service :: EditorService where
  "example_service =
     \<lparr>this_instance = Some example_editor, this_models = Map.empty,
      this_viewStates = Map.empty, this_decorations = Map.empty, monaco = example_monaco,
      files = example_files, localStorage = Map.empty, parserSvc_parse = [],
      socketClientSvc_send = [], filesSvc_updateFile = [], listener = None,
      orphan_timers = []\<rparr>"

definition model_a :: ITextModel where
  "model_a = ITextModel 0 ''file:///a.yaml'' ''yaml''"

definition model_b :: ITextModel where
  "model_b = ITextModel 1 ''file:///b.json'' ''json''"

definition tab_a :: EditorTab where
  "tab_a = \<lparr>tab_uri = ''a.yaml''\<rparr>"

definition tab_b :: EditorTab where
  "tab_b = \<lparr>tab_uri = ''b.json''\<rparr>"

definition tab_unknown :: EditorTab where
  "tab_unknown = \<lparr>tab_uri = ''gone.yaml''\<rparr>"

text \<open>The service after a first lookup of \<open>a.yaml\<close>, and after a switch to its tab.\<close>

definition service_a :: EditorService where
  "service_a = snd (getModel ''a.yaml'' example_service)"

definition service_on_a :: EditorService where
  "service_on_a = snd (onChangeTab tab_a example_service)"

definition monaco_a :: Monaco where
  "monaco_a =
     example_monaco\<lparr>next_ref := 1, model_value := (\<lambda>_. [])(0 := ''a: 1''),
                    model_disposed := (\<lambda>_. False)(0 := False),
                    model_decorations := (\<lambda>_. Map.empty)(0 := Map.empty),
                    model_lastDecorationId := (\<lambda>_. 0)(0 := 0)\<rparr>"

definition editor_on_a :: IStandaloneCodeEditor where
  "editor_on_a = example_editor\<lparr>bound_model := Some model_a, hasFocus := True\<rparr>"

text \<open>The user has moved the cursor in \<open>a.yaml\<close>: the live view state is 5.\<close>

definition service_moved :: EditorService where
  "service_moved = user_moves 5 service_on_a"

definition settings_300 :: "nat SettingsState" where
  "settings_300 = \<lparr>editor = \<lparr>autoSaving = True, savingDelay = 300\<rparr>, governance = 0\<rparr>"

definition settings_1000 :: "nat SettingsState" where
  "settings_1000 = \<lparr>editor = \<lparr>autoSaving = True, savingDelay = 1000\<rparr>, governance = 0\<rparr>"

text \<open>The service on \<open>a.yaml\<close> with the content changes subscribed at a delay of 300.\<close>

definition service_listening :: EditorService where
  "service_listening = configureEditor settings_300 service_on_a"


definition error_diagnostic :: Diagnostic where
  "error_diagnostic =
     \<lparr>message = ''e'',
      diag_range = \<lparr>start = \<lparr>line = 0, character = 0\<rparr>, end_pos = \<lparr>line = 0, character = 1\<rparr>\<rparr>,
      severity = DiagnosticSeverity_Error\<rparr>"

definition hint_diagnostic :: Diagnostic where
  "hint_diagnostic =
     \<lparr>message = ''h'',
      diag_range = \<lparr>start = \<lparr>line = 4, character = 2\<rparr>, end_pos = \<lparr>line = 5, character = 0\<rparr>\<rparr>,
      severity = DiagnosticSeverity_Hint\<rparr>"

definition document_a :: "Diagnostic list \<Rightarrow> Document" where
  "document_a ds = \<lparr>doc_uri = ''a.yaml'', filtered = ds\<rparr>"

definition file_a :: File where
  "file_a = \<lparr>f_uri = ''a.yaml'', f_content = ''a: 1'', f_language = ''yaml''\<rparr>"

text \<open>
  The service on \<open>a.yaml\<close> after an error and a hint were reported for it, and then after
  the registry announced the removal of the file.
\<close>

definition service_diagnosed :: EditorService where
  "service_diagnosed =
     applyMarkersAndDecorations (document_a [error_diagnostic, hint_diagnostic]) service_on_a"



definition service_after_removal :: EditorService where
  "service_after_removal = on_fs_file_remove file_a service_diagnosed"

text \<open>A format service that finds no language in the text \<open>???\<close> and YAML in any other.\<close>

definition example_retrieveLangauge :: "string \<Rightarrow> string option" where
  "example_retrieveLangauge body = (if body = ''???'' then None else Some ''yaml'')"

definition update_of :: "string option \<Rightarrow> bool option \<Rightarrow> bool option \<Rightarrow> UpdateState" where
  "update_of c um sts = \<lparr>content = c, updateModel = um, sendToServer = sts, u_file = None\<rparr>"

section \<open>Properties of the projection of diagnostics\<close>








text \<open>
  Claim C6: for the single diagnostic of severity warning, range from (2,0) to (2,5) and
  message \<open>m\<close>, the result has no marker and exactly one decoration, whose range is lines
  3 to 3 and columns 1 to 6, whose glyph class is \<open>diagnostic-warning\<close> and whose hover
  message is \<open>m\<close>.
\<close>

theorem C6_warning_scenario:
  "createMarkersAndDecorations
     [\<lparr>message = ''m'',
       diag_range = \<lparr>start = \<lparr>line = 2, character = 0\<rparr>, end_pos = \<lparr>line = 2, character = 5\<rparr>\<rparr>,
       severity = DiagnosticSeverity_Warning\<rparr>]
   = \<lparr>decorations =
        [\<lparr>dec_id = ''diagnostic-warning-0'', ownerId = 0,
          dec_range = \<lparr>startLineNumber = 3, startColumn = 1, endLineNumber = 3, endColumn = 6\<rparr>,
          options = \<lparr>glyphMarginClassName = ''diagnostic-warning'',
                     glyphMarginHoverMessage = ''m''\<rparr>\<rparr>],
      markers = []\<rparr>"
  by (simp add: createMarkersAndDecorations_def mkDecoration_def new_Range_def
      getSeverityClassName_def DiagnosticSeverity_Warning_def DiagnosticSeverity_Error_def
      toString.simps digit_def)


section \<open>Properties of the handle cache\<close>

lemma createModel_present: "this_models s uri \<noteq> None \<Longrightarrow> createModel uri f s = (None, s)"
  by (simp add: createModel_def)

lemma getModel_cached: "this_models s uri = Some (Some h) \<Longrightarrow> getModel uri s = (Some h, s)"
  by (simp add: getModel_def)

lemma getModel_Some_cached:
  "fst (getModel uri s) = Some h \<Longrightarrow> this_models (snd (getModel uri s)) uri = Some (Some h)"
  by (auto simp: getModel_def createModel_def getFile_def monaco_createModel_def Let_def
      split: option.splits if_splits)

lemma getModel_None: "fst (getModel u s) = None \<Longrightarrow> snd (getModel u s) = s"
  by (auto simp: getModel_def createModel_def getFile_def monaco_createModel_def Let_def
      split: option.splits if_splits)

lemma getModel_twice: "getModel uri (snd (getModel uri s)) = getModel uri s"
  by (auto simp: getModel_def createModel_def getFile_def monaco_createModel_def Let_def
      split: option.splits if_splits)

lemma getModel_other:
  "u \<noteq> uri \<Longrightarrow> this_models (snd (getModel u s)) uri = this_models s uri"
  by (auto simp: getModel_def createModel_def getFile_def monaco_createModel_def Let_def
      split: option.splits if_splits)

lemma getModel_keeps:
  "this_models s uri = Some (Some h) \<Longrightarrow> this_models (snd (getModel u s)) uri = Some (Some h)"
  by (auto simp: getModel_def createModel_def getFile_def monaco_createModel_def Let_def
      split: option.splits if_splits)

lemma createModel_keeps:
  "this_models s uri = Some (Some h) \<Longrightarrow> this_models (snd (createModel u f s)) uri = Some (Some h)"
  by (auto simp: createModel_def getFile_def monaco_createModel_def Let_def
      split: option.splits if_splits)

lemma removeModel_other:
  "u \<noteq> uri \<Longrightarrow> this_models (snd (removeModel u s)) uri = this_models s uri"
  by (auto simp: removeModel_def split_beta split: option.splits)

text \<open>The lookup touches neither the editor nor the two other caches.\<close>

lemma getModel_this_instance: "this_instance (snd (getModel u s)) = this_instance s"
  by (auto simp: getModel_def createModel_def getFile_def monaco_createModel_def Let_def
      split: option.splits if_splits)

lemma getModel_this_decorations: "this_decorations (snd (getModel u s)) = this_decorations s"
  by (auto simp: getModel_def createModel_def getFile_def monaco_createModel_def Let_def
      split: option.splits if_splits)

lemma getModel_viewStates_update:
  "getModel u (s\<lparr>this_viewStates := v\<rparr>) =
     (fst (getModel u s), (snd (getModel u s))\<lparr>this_viewStates := v\<rparr>)"
  by (auto simp: getModel_def createModel_def getFile_def monaco_createModel_def Let_def
      split: option.splits if_splits)

text \<open>A cached handle survives every operation on the cache but its own removal.\<close>

lemma cache_step_keeps:
  assumes c: "this_models s uri = Some (Some h)" and n: "op \<noteq> RemoveModel uri"
  shows "this_models (cache_step op s) uri = Some (Some h)"
proof (cases op)
  case (GetModel u)
  with c show ?thesis by (simp add: getModel_keeps)
next
  case (CreateModel u f)
  with c show ?thesis by (simp add: createModel_keeps)
next
  case (RemoveModel u)
  with c n show ?thesis by (simp add: removeModel_other)
qed

lemma cache_steps_keep:
  "this_models s uri = Some (Some h) \<Longrightarrow> RemoveModel uri \<notin> set ops \<Longrightarrow>
   this_models (cache_steps ops s) uri = Some (Some h)"
  unfolding cache_steps_def
proof (induction ops arbitrary: s)
  case Nil
  then show ?case by simp
next
  case (Cons op ops)
  from Cons.prems have "this_models (cache_step op s) uri = Some (Some h)"
    by (intro cache_step_keeps) auto
  with Cons show ?case by simp
qed

text \<open>The example states, computed.\<close>

lemmas example_defs = example_service_def example_files_def example_editor_def
  example_monaco_def model_a_def model_b_def monaco_a_def editor_on_a_def

lemma service_a_eq:
  "service_a = example_service\<lparr>monaco := monaco_a, this_models := [''a.yaml'' \<mapsto> Some model_a]\<rparr>"
  by (simp add: service_a_def getModel_def createModel_def getFile_def monaco_createModel_def
      example_defs)

lemma service_on_a_eq:
  "service_on_a =
     example_service\<lparr>monaco := monaco_a, this_models := [''a.yaml'' \<mapsto> Some model_a],
                     this_instance := Some editor_on_a\<rparr>"
  by (simp add: service_on_a_def tab_a_def onChangeTab_def getCurrentModel_def getModel_def
      createModel_def
      getFile_def monaco_createModel_def setModel_def focus_def initial_view_def example_defs)

lemma service_on_a_lookup: "getModel ''a.yaml'' service_on_a = (Some model_a, service_on_a)"
  by (rule getModel_cached) (simp add: service_on_a_eq)

text \<open>
  Claim C2: once a lookup of an identifier has returned a handle, every later lookup of
  that identifier returns the same handle and changes nothing, whatever lookups, creation
  requests and removals of other identifiers come in between, as long as the identifier
  itself is not removed; a lookup repeated at once returns what the first returned, also
  when that is nothing; and a creation request for an identifier present in the cache
  returns nothing and leaves the state, hence the buffers of the widget, as they were.
\<close>

theorem C2_single_handle:
  "(fst (getModel uri s) = Some h \<and> RemoveModel uri \<notin> set ops \<longrightarrow>
      getModel uri (cache_steps ops (snd (getModel uri s))) =
        (Some h, cache_steps ops (snd (getModel uri s))))
   \<and> getModel uri (snd (getModel uri s)) = (fst (getModel uri s), snd (getModel uri s))
   \<and> (this_models s uri \<noteq> None \<longrightarrow> createModel uri f s = (None, s))"
proof (intro conjI impI)
  assume a: "fst (getModel uri s) = Some h \<and> RemoveModel uri \<notin> set ops"
  then have "this_models (snd (getModel uri s)) uri = Some (Some h)"
    by (simp add: getModel_Some_cached)
  with a have "this_models (cache_steps ops (snd (getModel uri s))) uri = Some (Some h)"
    by (simp add: cache_steps_keep)
  then show "getModel uri (cache_steps ops (snd (getModel uri s))) =
        (Some h, cache_steps ops (snd (getModel uri s)))"
    by (rule getModel_cached)
next
  show "getModel uri (snd (getModel uri s)) = (fst (getModel uri s), snd (getModel uri s))"
    by (simp add: getModel_twice)
next
  assume "this_models s uri \<noteq> None"
  then show "createModel uri f s = (None, s)" by (rule createModel_present)
qed

theorem C2_single_handle_witness:
  "fst (getModel ''a.yaml'' service_a) = Some model_a
   \<and> RemoveModel ''a.yaml'' \<notin>
       set [GetModel ''b.json'', RemoveModel ''b.json'', CreateModel ''a.yaml'' None]
   \<and> this_models service_a ''a.yaml'' \<noteq> None
   \<and> fst (getModel ''a.yaml''
        (cache_steps [GetModel ''b.json'', RemoveModel ''b.json'', CreateModel ''a.yaml'' None]
           (snd (getModel ''a.yaml'' service_a)))) = Some model_a
   \<and> createModel ''a.yaml'' None service_a = (None, service_a)"
proof -
  have m: "this_models service_a ''a.yaml'' = Some (Some model_a)"
    by (simp add: service_a_eq)
  have h1: "fst (getModel ''a.yaml'' service_a) = Some model_a"
    using m by (simp add: getModel_cached)
  have h2: "RemoveModel ''a.yaml'' \<notin>
      set [GetModel ''b.json'', RemoveModel ''b.json'', CreateModel ''a.yaml'' None]"
    by simp
  have h3: "this_models service_a ''a.yaml'' \<noteq> None" using m by simp
  from C2_single_handle [of "''a.yaml''" service_a model_a
      "[GetModel ''b.json'', RemoveModel ''b.json'', CreateModel ''a.yaml'' None]" None]
    h1 h2 h3
  show ?thesis by simp
qed

section \<open>Properties of markers and decorations\<close>

text \<open>The two branches of a round of the delta that still has a new decoration.\<close>

lemma delta_impl_fresh:
  assumes "dropWhile (\<lambda>h. ds h = None) old = []"
  shows "fst (deltaDecorationsImpl inst owner old (d # new) ds lst) =
           (inst, Suc lst) #
           fst (deltaDecorationsImpl inst owner [] new (ds((inst, Suc lst) \<mapsto> (owner, d))) (Suc lst))"
    and "snd (deltaDecorationsImpl inst owner old (d # new) ds lst) =
           snd (deltaDecorationsImpl inst owner [] new (ds((inst, Suc lst) \<mapsto> (owner, d))) (Suc lst))"
proof -
  have e: "deltaDecorationsImpl inst owner old (d # new) ds lst =
      (case deltaDecorationsImpl inst owner [] new
              (ds((inst, Suc lst) \<mapsto> (owner, d))) (Suc lst) of
         (r, st) \<Rightarrow> ((inst, Suc lst) # r, st))"
    by (simp only: deltaDecorationsImpl.simps assms list.case)
  show "fst (deltaDecorationsImpl inst owner old (d # new) ds lst) =
           (inst, Suc lst) #
           fst (deltaDecorationsImpl inst owner [] new (ds((inst, Suc lst) \<mapsto> (owner, d))) (Suc lst))"
    by (simp only: e split_beta fst_conv)
  show "snd (deltaDecorationsImpl inst owner old (d # new) ds lst) =
           snd (deltaDecorationsImpl inst owner [] new (ds((inst, Suc lst) \<mapsto> (owner, d))) (Suc lst))"
    by (simp only: e split_beta snd_conv)
qed

lemma delta_impl_reuse:
  assumes "dropWhile (\<lambda>h. ds h = None) old = k # rest"
  shows "fst (deltaDecorationsImpl inst owner old (d # new) ds lst) =
           k # fst (deltaDecorationsImpl inst owner rest new (ds(k \<mapsto> (owner, d))) lst)"
    and "snd (deltaDecorationsImpl inst owner old (d # new) ds lst) =
           snd (deltaDecorationsImpl inst owner rest new (ds(k \<mapsto> (owner, d))) lst)"
proof -
  have e: "deltaDecorationsImpl inst owner old (d # new) ds lst =
      (case deltaDecorationsImpl inst owner rest new (ds(k \<mapsto> (owner, d))) lst of
         (r, st) \<Rightarrow> (k # r, st))"
    by (simp only: deltaDecorationsImpl.simps assms list.case)
  show "fst (deltaDecorationsImpl inst owner old (d # new) ds lst) =
           k # fst (deltaDecorationsImpl inst owner rest new (ds(k \<mapsto> (owner, d))) lst)"
    by (simp only: e split_beta fst_conv)
  show "snd (deltaDecorationsImpl inst owner old (d # new) ds lst) =
           snd (deltaDecorationsImpl inst owner rest new (ds(k \<mapsto> (owner, d))) lst)"
    by (simp only: e split_beta snd_conv)
qed


text \<open>
  Every identifier the delta returns is an old one that named a decoration, or a fresh
  one above the counter; identifiers that are neither old nor returned keep what they
  named; old identifiers that are not returned name nothing afterwards.
\<close>

lemma delta_impl_length:
  "length (fst (deltaDecorationsImpl inst owner old new ds lst)) = length new"
proof (induction new arbitrary: old ds lst)
  case Nil
  show ?case by simp
next
  case (Cons d new)
  show ?case
  proof (cases "dropWhile (\<lambda>h. ds h = None) old")
    case Nil
    show ?thesis by (simp only: delta_impl_fresh(1) [OF Nil] Cons.IH list.size)
  next
    case (Cons k rest)
    show ?thesis by (simp only: delta_impl_reuse(1) [OF Cons] Cons.IH list.size)
  qed
qed







text \<open>The delta of the editor, with and without a text model bound.\<close>

lemma delta_unbound:
  "bound_model e = None \<Longrightarrow> deltaDecorations old new e m = ([], m)"
  by (simp add: deltaDecorations_def)

lemma delta_bound:
  assumes "bound_model e = Some b"
  shows "fst (deltaDecorations old new e m) =
           fst (deltaDecorationsImpl (model_ref b) (editor_id e) old new
                  (model_decorations m (model_ref b)) (model_lastDecorationId m (model_ref b)))"
    and "model_decorations (snd (deltaDecorations old new e m)) (model_ref b) =
           fst (snd (deltaDecorationsImpl (model_ref b) (editor_id e) old new
                  (model_decorations m (model_ref b)) (model_lastDecorationId m (model_ref b))))"
    and "model_lastDecorationId (snd (deltaDecorations old new e m)) (model_ref b) =
           snd (snd (deltaDecorationsImpl (model_ref b) (editor_id e) old new
                  (model_decorations m (model_ref b)) (model_lastDecorationId m (model_ref b))))"
  using assms by (simp_all add: deltaDecorations_def split_beta)

lemma delta_markers: "model_markers (snd (deltaDecorations old new e m)) = model_markers m"
  by (simp add: deltaDecorations_def split_beta split: option.splits)

lemma delta_empty: "fst (deltaDecorations old [] e m) = []"
  by (simp add: deltaDecorations_def split: option.splits)

lemma markers_set: "model_markers (setModelMarkers model owner ms m) (model_ref model, owner) = ms"
  by (simp add: setModelMarkers_def)



lemma remove_eq:
  assumes "getModel uri s = (Some model, s1)" and "this_instance s = Some e"
  shows "removeMarkersAndDecorations \<lparr>doc_uri = uri, filtered = ds\<rparr> s =
     s1\<lparr>monaco := snd (deltaDecorations (cached_handles uri s) [] e
                        (setModelMarkers model uri [] (monaco s1))),
        this_decorations := (this_decorations s)(uri \<mapsto>
           fst (deltaDecorations (cached_handles uri s) [] e
                  (setModelMarkers model uri [] (monaco s1))))\<rparr>"
proof -
  have i: "this_instance s1 = Some e"
    using assms getModel_this_instance [of uri s] by simp
  have d: "this_decorations s1 = this_decorations s"
    using assms getModel_this_decorations [of uri s] by simp
  then have c: "cached_handles uri s1 = cached_handles uri s"
    by (simp add: cached_handles_def)
  show ?thesis
    using assms(1) i d c
    by (simp add: removeMarkersAndDecorations_def Let_def split_beta)
qed




text \<open>The diagnosed example state, computed.\<close>

lemma service_diagnosed_facts:
  "this_models service_diagnosed ''a.yaml'' = Some (Some model_a)"
  "this_instance service_diagnosed = Some editor_on_a"
  "cached_handles ''a.yaml'' service_diagnosed = [(0, 1)]"
  "this_decorations service_diagnosed ''a.yaml'' = Some [(0, 1)]"
  "model_decorations (monaco service_diagnosed) 0 (0, 1) = Some (1, mkDecoration 1 hint_diagnostic)"
  by code_simp+

text \<open>Disposing a text model changes no marker set and sets its disposed flag.\<close>

lemma model_dispose_markers:
  "model_markers (snd (model_dispose model inst m)) = model_markers m"
  by (simp add: model_dispose_def setModel_def removeAllDecorationsWithOwnerId_def split_beta
      split: option.splits)

lemma model_dispose_disposed:
  "model_disposed (snd (model_dispose model inst m)) (model_ref model)"
  by (simp add: model_dispose_def split_beta)

text \<open>
  Claim C4, as stated, fails: the handler of the removal of a file disposes and evicts the
  handle and clears nothing. In the example, after an error and a hint were reported for
  \<open>a.yaml\<close> and the file was then removed, the handle is gone from the cache, but the
  decoration handle is still cached under the identifier and the marker of the error is
  still set.
\<close>

theorem C4_removal_counterexample:
  "this_models service_after_removal ''a.yaml'' = None
   \<and> this_decorations service_after_removal ''a.yaml'' = Some [(0, 1)]
   \<and> model_markers (monaco service_after_removal) (model_ref model_a, ''a.yaml'')
       = [mkMarker error_diagnostic]"
  by code_simp

text \<open>
  Claim C4, amended: the handler of the removal of a file disposes the cached handle of
  the identifier and evicts it, and leaves the marker sets and the cached decoration
  handles as they were. Markers and decorations are cleared by the handler of the
  removal of a document: when the handle of the identifier is found and the editor
  exists, it sets the marker set of the identifier to the empty list, stores the empty
  list of handles under the identifier, and no handle cached before names a decoration
  of the text model the editor is bound to any more.
\<close>

theorem C4_removal_split:
  "(this_models s (f_uri removed) = Some (Some model) \<longrightarrow>
      this_models (on_fs_file_remove removed s) (f_uri removed) = None
    \<and> model_disposed (monaco (on_fs_file_remove removed s)) (model_ref model)
    \<and> model_markers (monaco (on_fs_file_remove removed s)) = model_markers (monaco s)
    \<and> this_decorations (on_fs_file_remove removed s) = this_decorations s)
   \<and> (getModel uri s = (Some model', s1) \<and> this_instance s = Some e \<longrightarrow>
      model_markers (monaco (on_document_remove \<lparr>doc_uri = uri, filtered = ds\<rparr> s))
        (model_ref model', uri) = []
    \<and> this_decorations (on_document_remove \<lparr>doc_uri = uri, filtered = ds\<rparr> s) uri = Some []
    \<and> (\<forall>b. bound_model e = Some b \<longrightarrow>
          (\<forall>h \<in> set (cached_handles uri s).
             model_decorations (monaco (on_document_remove \<lparr>doc_uri = uri, filtered = ds\<rparr> s))
               (model_ref b) h = None)))"
proof (intro conjI impI allI ballI)
  assume c: "this_models s (f_uri removed) = Some (Some model)"
  let ?d = "model_dispose model (this_instance s) (monaco s)"
  from c have r: "on_fs_file_remove removed s =
      s\<lparr>this_instance := fst ?d, monaco := snd ?d,
        this_models := (this_models s)(f_uri removed := None)\<rparr>"
    by (simp add: on_fs_file_remove_def removeModel_def split_beta)
  show "this_models (on_fs_file_remove removed s) (f_uri removed) = None" by (simp add: r)
  show "model_disposed (monaco (on_fs_file_remove removed s)) (model_ref model)"
    by (simp add: r model_dispose_disposed)
  show "model_markers (monaco (on_fs_file_remove removed s)) = model_markers (monaco s)"
    by (simp add: r model_dispose_markers)
  show "this_decorations (on_fs_file_remove removed s) = this_decorations s" by (simp add: r)
next
  assume a: "getModel uri s = (Some model', s1) \<and> this_instance s = Some e"
  let ?D = "deltaDecorations (cached_handles uri s) [] e (setModelMarkers model' uri [] (monaco s1))"
  have r: "on_document_remove \<lparr>doc_uri = uri, filtered = ds\<rparr> s =
     s1\<lparr>monaco := snd ?D, this_decorations := (this_decorations s)(uri \<mapsto> fst ?D)\<rparr>"
    unfolding on_document_remove_def using a by (intro remove_eq) simp_all
  show "model_markers (monaco (on_document_remove \<lparr>doc_uri = uri, filtered = ds\<rparr> s))
      (model_ref model', uri) = []"
    by (simp add: r delta_markers markers_set)
  show "this_decorations (on_document_remove \<lparr>doc_uri = uri, filtered = ds\<rparr> s) uri = Some []"
    by (simp add: r delta_empty)
  fix b h
  assume b: "bound_model e = Some b" and h: "h \<in> set (cached_handles uri s)"
  have "model_decorations (snd ?D) (model_ref b) h = None"
    using h by (simp add: delta_bound(2) [OF b])
  then show "model_decorations (monaco (on_document_remove \<lparr>doc_uri = uri, filtered = ds\<rparr> s))
      (model_ref b) h = None"
    by (simp add: r)
qed

theorem C4_removal_split_witness:
  "this_models service_diagnosed (f_uri file_a) = Some (Some model_a)
   \<and> getModel ''a.yaml'' service_diagnosed = (Some model_a, service_diagnosed)
   \<and> this_instance service_diagnosed = Some editor_on_a
   \<and> bound_model editor_on_a = Some model_a
   \<and> (0, 1) \<in> set (cached_handles ''a.yaml'' service_diagnosed)
   \<and> model_decorations (monaco service_diagnosed) (model_ref model_a) (0, 1) \<noteq> None
   \<and> this_models (on_fs_file_remove file_a service_diagnosed) ''a.yaml'' = None
   \<and> this_decorations (on_fs_file_remove file_a service_diagnosed) ''a.yaml'' = Some [(0, 1)]
   \<and> model_markers (monaco (on_document_remove \<lparr>doc_uri = ''a.yaml'', filtered = []\<rparr>
         service_diagnosed)) (model_ref model_a, ''a.yaml'') = []
   \<and> this_decorations (on_document_remove \<lparr>doc_uri = ''a.yaml'', filtered = []\<rparr>
         service_diagnosed) ''a.yaml'' = Some []
   \<and> model_decorations (monaco (on_document_remove \<lparr>doc_uri = ''a.yaml'', filtered = []\<rparr>
         service_diagnosed)) (model_ref model_a) (0, 1) = None"
proof -
  have u: "f_uri file_a = ''a.yaml''" by (simp add: file_a_def)
  have r: "model_ref model_a = 0" by (simp add: model_a_def)
  have b: "bound_model editor_on_a = Some model_a" by (simp add: editor_on_a_def)
  have g: "getModel ''a.yaml'' service_diagnosed = (Some model_a, service_diagnosed)"
    by (rule getModel_cached) (rule service_diagnosed_facts(1))
  from C4_removal_split [of service_diagnosed file_a model_a "''a.yaml''" model_a
      service_diagnosed editor_on_a "[]"]
    service_diagnosed_facts g b u r
  show ?thesis by simp
qed

section \<open>Properties of the tab switch\<close>

text \<open>The switch, when a text model is bound: the snapshot is stored first.\<close>

lemma setModel_bound: "bound_model (fst (setModel (Some model) e m)) = Some model"
  by (simp add: setModel_def)

lemma onChangeTab_save:
  assumes "this_instance s = Some e" "bound_model e = Some A"
  shows "this_viewStates (snd (onChangeTab newTab s)) =
           (this_viewStates s)(model_uri A \<mapsto> Some (view e))"
    and "fst (getModel (tab_uri newTab) s) = None \<Longrightarrow>
           onChangeTab newTab s =
             (Returned, s\<lparr>this_viewStates := (this_viewStates s)(model_uri A \<mapsto> Some (view e))\<rparr>)"
    and "fst (getModel (tab_uri newTab) s) = Some model \<Longrightarrow>
           this_instance (snd (onChangeTab newTab s)) = Some
             (case ((this_viewStates s)(model_uri A \<mapsto> Some (view e))) (model_uri model) of
                Some (Some v) \<Rightarrow>
                  restoreViewState v
                    (focus (fst (setModel (Some model) e (monaco (snd (getModel (tab_uri newTab) s))))))
              | _ \<Rightarrow> focus (fst (setModel (Some model) e (monaco (snd (getModel (tab_uri newTab) s))))))"
    and "this_models (snd (onChangeTab newTab s)) = this_models (snd (getModel (tab_uri newTab) s))"
proof -
  let ?vs = "(this_viewStates s)(model_uri A \<mapsto> Some (view e))"
  have s1: "(case getCurrentModel s of
               None \<Rightarrow> s
             | Some oldModel \<Rightarrow>
                 (case this_instance s of
                    None \<Rightarrow> s
                  | Some e \<Rightarrow>
                      s\<lparr>this_viewStates :=
                          (this_viewStates s)(model_uri oldModel \<mapsto> saveViewState e)\<rparr>))
      = s\<lparr>this_viewStates := ?vs\<rparr>"
    using assms by (simp add: getCurrentModel_def saveViewState_def)
  have g: "getModel (tab_uri newTab) (s\<lparr>this_viewStates := ?vs\<rparr>) =
      (fst (getModel (tab_uri newTab) s), (snd (getModel (tab_uri newTab) s))\<lparr>this_viewStates := ?vs\<rparr>)"
    by (rule getModel_viewStates_update)
  have i: "this_instance (snd (getModel (tab_uri newTab) s)) = Some e"
    using assms(1) by (simp add: getModel_this_instance)
  show "this_viewStates (snd (onChangeTab newTab s)) = ?vs"
    unfolding onChangeTab_def s1 Let_def g
    by (simp add: i split_beta split: option.splits)
  show "onChangeTab newTab s = (Returned, s\<lparr>this_viewStates := ?vs\<rparr>)"
    if "fst (getModel (tab_uri newTab) s) = None"
    unfolding onChangeTab_def s1 Let_def g
    using that getModel_None [OF that] by simp
  show "this_instance (snd (onChangeTab newTab s)) = Some
             (case ?vs (model_uri model) of
                Some (Some v) \<Rightarrow>
                  restoreViewState v
                    (focus (fst (setModel (Some model) e (monaco (snd (getModel (tab_uri newTab) s))))))
              | _ \<Rightarrow> focus (fst (setModel (Some model) e (monaco (snd (getModel (tab_uri newTab) s))))))"
    if "fst (getModel (tab_uri newTab) s) = Some model"
    unfolding onChangeTab_def s1 Let_def g
    using that by (simp add: i split_beta)
  show "this_models (snd (onChangeTab newTab s)) = this_models (snd (getModel (tab_uri newTab) s))"
    unfolding onChangeTab_def s1 Let_def g
    by (simp add: i split_beta split: option.splits)
qed

lemma service_moved_eq:
  "service_moved =
     example_service\<lparr>monaco := monaco_a, this_models := [''a.yaml'' \<mapsto> Some model_a],
                     this_instance := Some (editor_on_a\<lparr>view := 5\<rparr>)\<rparr>"
  by (simp add: service_moved_def user_moves_def service_on_a_eq)

text \<open>
  Claim C7: on a tab switch with a text model bound, the view state of the editor as it
  is before the rebinding is stored under the URI of that text model, whether or not the
  new handle is found. When the handle of the new tab is not found, the call returns with
  this one change and the editor, hence the binding, is as before. When the switch goes
  from A to B (two text models of different URIs) and, after the user has moved in B,
  back to A, the editor is bound to A again, has the focus, and its view state is the
  one it had when the first switch left A.
\<close>

theorem C7_tab_switch:
  assumes i: "this_instance s = Some e" and b: "bound_model e = Some A"
  shows "this_viewStates (snd (onChangeTab newTab s)) =
           (this_viewStates s)(model_uri A \<mapsto> Some (view e))
    \<and> (fst (getModel (tab_uri missing) s) = None \<longrightarrow>
         onChangeTab missing s =
           (Returned, s\<lparr>this_viewStates := (this_viewStates s)(model_uri A \<mapsto> Some (view e))\<rparr>))
    \<and> (fst (getModel (tab_uri tabB) s) = Some B \<and> model_uri B \<noteq> model_uri A
        \<and> this_models s (tab_uri tabA) = Some (Some A) \<longrightarrow>
         (\<exists>eB. this_instance (snd (onChangeTab tabB s)) = Some eB \<and> bound_model eB = Some B)
       \<and> (\<exists>eA. this_instance
                 (snd (onChangeTab tabA (user_moves v (snd (onChangeTab tabB s))))) = Some eA
              \<and> bound_model eA = Some A \<and> view eA = view e \<and> hasFocus eA))"
proof (intro conjI impI)
  show "this_viewStates (snd (onChangeTab newTab s)) =
           (this_viewStates s)(model_uri A \<mapsto> Some (view e))"
    by (rule onChangeTab_save(1) [OF i b])
next
  assume "fst (getModel (tab_uri missing) s) = None"
  then show "onChangeTab missing s =
           (Returned, s\<lparr>this_viewStates := (this_viewStates s)(model_uri A \<mapsto> Some (view e))\<rparr>)"
    by (rule onChangeTab_save(2) [OF i b])
next
  assume a: "fst (getModel (tab_uri tabB) s) = Some B \<and> model_uri B \<noteq> model_uri A
        \<and> this_models s (tab_uri tabA) = Some (Some A)"
  let ?vs = "(this_viewStates s)(model_uri A \<mapsto> Some (view e))"
  let ?e0 = "focus (fst (setModel (Some B) e (monaco (snd (getModel (tab_uri tabB) s)))))"
  let ?eB = "(case ?vs (model_uri B) of
                Some (Some v) \<Rightarrow> restoreViewState v ?e0
              | _ \<Rightarrow> ?e0)"
  let ?s1 = "snd (onChangeTab tabB s)"
  from a have gB: "fst (getModel (tab_uri tabB) s) = Some B" by simp
  have iB: "this_instance ?s1 = Some ?eB" by (rule onChangeTab_save(3) [OF i b gB])
  have b0: "bound_model ?e0 = Some B" by (simp add: focus_def setModel_bound)
  have bB: "bound_model ?eB = Some B"
    using b0 by (simp add: restoreViewState_def split: option.splits)
  show "\<exists>eB. this_instance ?s1 = Some eB \<and> bound_model eB = Some B"
    using iB bB by simp
  let ?s1' = "user_moves v ?s1"
  have i1: "this_instance ?s1' = Some (?eB\<lparr>view := v\<rparr>)"
    by (simp add: iB user_moves_def)
  have b1: "bound_model (?eB\<lparr>view := v\<rparr>) = Some B" using bB by simp
  have "this_models (snd (getModel (tab_uri tabB) s)) (tab_uri tabA) = Some (Some A)"
    using a by (simp add: getModel_keeps)
  then have "this_models ?s1' (tab_uri tabA) = Some (Some A)"
    by (simp add: onChangeTab_save(4) [OF i b] user_moves_def)
  then have g: "getModel (tab_uri tabA) ?s1' = (Some A, ?s1')" by (rule getModel_cached)
  then have gA: "fst (getModel (tab_uri tabA) ?s1') = Some A" by simp
  have vs1: "this_viewStates ?s1' = ?vs"
    by (simp add: onChangeTab_save(1) [OF i b] user_moves_def)
  from a have ne: "model_uri A \<noteq> model_uri B" by auto
  let ?eA0 = "focus (fst (setModel (Some A) (?eB\<lparr>view := v\<rparr>) (monaco ?s1')))"
  have bA0: "bound_model ?eA0 = Some A" by (simp add: focus_def setModel_bound)
  have fA0: "hasFocus ?eA0" by (simp add: focus_def)
  have "this_instance (snd (onChangeTab tabA ?s1')) = Some (restoreViewState (view e) ?eA0)"
    using ne by (simp add: onChangeTab_save(3) [OF i1 b1 gA] g vs1)
  then show "\<exists>eA. this_instance (snd (onChangeTab tabA ?s1')) = Some eA
              \<and> bound_model eA = Some A \<and> view eA = view e \<and> hasFocus eA"
    using bA0 fA0 by (simp add: restoreViewState_def)
qed

theorem C7_tab_switch_witness:
  "this_instance service_moved = Some (editor_on_a\<lparr>view := 5\<rparr>)
   \<and> bound_model (editor_on_a\<lparr>view := 5\<rparr>) = Some model_a
   \<and> fst (getModel (tab_uri tab_unknown) service_moved) = None
   \<and> fst (getModel (tab_uri tab_b) service_moved) = Some model_b
   \<and> model_uri model_b \<noteq> model_uri model_a
   \<and> this_models service_moved (tab_uri tab_a) = Some (Some model_a)
   \<and> this_viewStates (snd (onChangeTab tab_b service_moved)) ''file:///a.yaml'' = Some (Some 5)
   \<and> this_instance (snd (onChangeTab tab_unknown service_moved)) = Some (editor_on_a\<lparr>view := 5\<rparr>)
   \<and> (\<exists>eB. this_instance (snd (onChangeTab tab_b service_moved)) = Some eB
         \<and> bound_model eB = Some model_b)
   \<and> (\<exists>eA. this_instance (snd (onChangeTab tab_a
               (user_moves 9 (snd (onChangeTab tab_b service_moved))))) = Some eA
         \<and> bound_model eA = Some model_a \<and> view eA = 5 \<and> hasFocus eA)"
proof -
  have h1: "this_instance service_moved = Some (editor_on_a\<lparr>view := 5\<rparr>)"
    by (simp add: service_moved_eq)
  have h2: "bound_model (editor_on_a\<lparr>view := 5\<rparr>) = Some model_a"
    by (simp add: editor_on_a_def)
  have h3: "fst (getModel (tab_uri tab_unknown) service_moved) = None"
    by (simp add: service_moved_eq tab_unknown_def getModel_def createModel_def getFile_def
        example_service_def example_files_def)
  have h4: "fst (getModel (tab_uri tab_b) service_moved) = Some model_b"
    by (simp add: service_moved_eq tab_b_def getModel_def createModel_def getFile_def
        monaco_createModel_def example_defs)
  have h5: "model_uri model_b \<noteq> model_uri model_a"
    by (simp add: model_a_def model_b_def)
  have h6: "this_models service_moved (tab_uri tab_a) = Some (Some model_a)"
    by (simp add: service_moved_eq tab_a_def)
  have u: "model_uri model_a = ''file:///a.yaml''" by (simp add: model_a_def)
  have w: "view (editor_on_a\<lparr>view := 5\<rparr>) = 5" by simp
  from C7_tab_switch [OF h1 h2, of tab_b tab_unknown tab_b model_b tab_a 9]
    h1 h2 h3 h4 h5 h6
  show ?thesis unfolding u w by simp
qed

section \<open>Properties of the debounced analysis call\<close>

text \<open>Nothing fires while no flush is due.\<close>

lemma advance_idle:
  assumes "listener s = Some d" "orphan_timers s = []" "\<forall>t. timeout d = Some t \<longrightarrow> now < t"
  shows "advance now s = s"
proof -
  have "due_timers now s = []"
    using assms by (auto simp: due_timers_def split: option.splits)
  moreover have "clear_due now s = s"
    using assms by (auto simp: clear_due_def split: option.splits)
  ultimately show ?thesis by (simp add: advance_def)
qed

lemma content_change_eq:
  assumes "listener s = Some d" "getCurrentModel s = Some model"
  shows "content_change now body s =
     s\<lparr>monaco := (monaco s)\<lparr>model_value := (model_value (monaco s))(model_ref model := body)\<rparr>,
       listener := Some (d\<lparr>timeout := Some (now + wait d)\<rparr>)\<rparr>"
  using assms
  by (simp add: content_change_def model_setValue_def onDidChangeModelContent_def
      debounced_call_def)

text \<open>
  A run of changes within one window makes no call to the parser and ends with a single
  flush pending, one delay after the last change, and with the text of the last change in
  the buffer.
\<close>

lemma changes_pending:
  assumes "listener s = Some d" "orphan_timers s = []" "getCurrentModel s = Some model"
    "cs \<noteq> []" "within_window (wait d) cs" "\<forall>t. timeout d = Some t \<longrightarrow> fst (hd cs) < t"
  shows "listener (changes cs s) = Some (d\<lparr>timeout := Some (fst (last cs) + wait d)\<rparr>)
       \<and> orphan_timers (changes cs s) = []
       \<and> getCurrentModel (changes cs s) = Some model
       \<and> parserSvc_parse (changes cs s) = parserSvc_parse s
       \<and> model_getValue model (monaco (changes cs s)) = snd (last cs)"
  using assms
proof (induction cs arbitrary: s d)
  case Nil
  then show ?case by simp
next
  case (Cons c cs)
  obtain t body where c: "c = (t, body)" by (cases c)
  have adv: "advance t s = s"
    using Cons.prems c by (intro advance_idle [where d = d]) auto
  let ?d' = "d\<lparr>timeout := Some (t + wait d)\<rparr>"
  let ?s' = "content_change t body s"
  have s': "?s' =
      s\<lparr>monaco := (monaco s)\<lparr>model_value := (model_value (monaco s))(model_ref model := body)\<rparr>,
        listener := Some ?d'\<rparr>"
    using Cons.prems by (intro content_change_eq) auto
  have step: "changes (c # cs) s = changes cs ?s'" by (simp add: c adv)
  show ?case
  proof (cases cs)
    case Nil
    then show ?thesis using Cons.prems(2,3)
      by (simp add: adv s' c getCurrentModel_def model_getValue_def)
  next
    case (Cons c2 cs2)
    have l: "listener ?s' = Some ?d'" by (simp add: s')
    have o: "orphan_timers ?s' = []" using Cons.prems(2) by (simp add: s')
    have g: "getCurrentModel ?s' = Some model"
      using Cons.prems(3) by (simp add: s' getCurrentModel_def)
    have ne: "cs \<noteq> []" using Cons by simp
    have w: "within_window (wait ?d') cs" using Cons.prems(5) Cons by simp
    have p: "\<forall>u. timeout ?d' = Some u \<longrightarrow> fst (hd cs) < u"
      using Cons.prems(5) Cons c by simp
    from Cons.IH [OF l o g ne w p]
    show ?thesis using ne by (simp add: step s')
  qed
qed

lemma advance_fire:
  assumes "listener s = Some d" "timeout d = Some t" "t \<le> now" "orphan_timers s = []"
    "getCurrentModel s = Some model"
  shows "advance now s =
     s\<lparr>orphan_timers := [], listener := Some (d\<lparr>timeout := None\<rparr>),
       parserSvc_parse :=
         parserSvc_parse s @ [(t, model_uri model, model_getValue model (monaco s))]\<rparr>"
proof -
  have "due_timers now s = [t]" using assms by (simp add: due_timers_def)
  moreover have "clear_due now s = s\<lparr>orphan_timers := [], listener := Some (d\<lparr>timeout := None\<rparr>)\<rparr>"
    using assms by (simp add: clear_due_def)
  ultimately show ?thesis
    using assms(5) by (simp add: advance_def onChangeContent_flush_def getCurrentModel_def)
qed

lemma service_listening_eq:
  "service_listening =
     example_service\<lparr>monaco := monaco_a, this_models := [''a.yaml'' \<mapsto> Some model_a],
                     this_instance := Some editor_on_a,
                     listener := Some \<lparr>wait = 300, timeout = None\<rparr>\<rparr>"
  by (simp add: service_listening_def configureEditor_def onChangeContent_def debounce_def
      settings_300_def service_on_a_eq)

lemma service_listening_model: "getCurrentModel service_listening = Some model_a"
  by (simp add: service_listening_eq getCurrentModel_def editor_on_a_def)

text \<open>
  Claim C1: with a listener subscribed and idle, a text model bound and no other flush
  pending, a run of one or more content changes in which each change arrives before the
  flush scheduled by the one before it is due makes no call to the parser while it lasts;
  once the time has reached one delay after the last change, exactly one call has been
  added, made at that time, with the text of the URI of the bound text model and the full
  text of the buffer as the last change left it; and the listener is idle again.
\<close>

theorem C1_coalesced:
  assumes "listener s = Some d" and "timeout d = None" and "orphan_timers s = []"
    and "getCurrentModel s = Some model"
    and "cs \<noteq> []" and "within_window (wait d) cs" and "fst (last cs) + wait d \<le> T"
  shows "parserSvc_parse (changes cs s) = parserSvc_parse s
       \<and> parserSvc_parse (advance T (changes cs s)) =
           parserSvc_parse s @ [(fst (last cs) + wait d, model_uri model, snd (last cs))]
       \<and> listener (advance T (changes cs s)) = Some d"
proof -
  let ?s' = "changes cs s"
  let ?t = "fst (last cs) + wait d"
  have p: "listener ?s' = Some (d\<lparr>timeout := Some ?t\<rparr>)
       \<and> orphan_timers ?s' = []
       \<and> getCurrentModel ?s' = Some model
       \<and> parserSvc_parse ?s' = parserSvc_parse s
       \<and> model_getValue model (monaco ?s') = snd (last cs)"
    using assms by (intro changes_pending) auto
  have "advance T ?s' =
     ?s'\<lparr>orphan_timers := [], listener := Some (d\<lparr>timeout := Some ?t, timeout := None\<rparr>),
       parserSvc_parse :=
         parserSvc_parse ?s' @ [(?t, model_uri model, model_getValue model (monaco ?s'))]\<rparr>"
    using p assms(7) by (intro advance_fire) auto
  with p assms(2) show ?thesis by simp
qed

theorem C1_coalesced_witness:
  "listener service_listening = Some \<lparr>wait = 300, timeout = None\<rparr>
   \<and> timeout \<lparr>wait = 300, timeout = None\<rparr> = None
   \<and> orphan_timers service_listening = []
   \<and> getCurrentModel service_listening = Some model_a
   \<and> [(0, ''a''), (10, ''ab''), (20, ''abc''), (30, ''abcd'')] \<noteq> []
   \<and> within_window 300 [(0, ''a''), (10, ''ab''), (20, ''abc''), (30, ''abcd'')]
   \<and> parserSvc_parse
        (changes [(0, ''a''), (10, ''ab''), (20, ''abc''), (30, ''abcd'')] service_listening) = []
   \<and> parserSvc_parse (advance 330
        (changes [(0, ''a''), (10, ''ab''), (20, ''abc''), (30, ''abcd'')] service_listening))
       = [(330, ''file:///a.yaml'', ''abcd'')]"
proof -
  have h1: "listener service_listening = Some \<lparr>wait = 300, timeout = None\<rparr>"
    by (simp add: service_listening_eq)
  have h2: "timeout \<lparr>wait = 300, timeout = None\<rparr> = None" by simp
  have h3: "orphan_timers service_listening = []"
    by (simp add: service_listening_eq example_service_def)
  have h5: "[(0::nat, ''a''), (10, ''ab''), (20, ''abc''), (30, ''abcd'')] \<noteq> []" by simp
  have h6: "within_window (wait \<lparr>wait = 300, timeout = None\<rparr>)
      [(0, ''a''), (10, ''ab''), (20, ''abc''), (30, ''abcd'')]" by simp
  have h7: "fst (last [(0::nat, ''a''), (10, ''ab''), (20, ''abc''), (30, ''abcd'')])
      + wait \<lparr>wait = 300, timeout = None\<rparr> \<le> 330" by simp
  have p: "parserSvc_parse service_listening = []"
    by (simp add: service_listening_eq example_service_def)
  from C1_coalesced [OF h1 h2 h3 service_listening_model h5 h6 h7]
    h1 h3 service_listening_model h6 p
  show ?thesis by (simp add: model_a_def)
qed

text \<open>
  Claim C8, as stated, fails: the delay is not read again when a flush is scheduled. The
  listener was subscribed at a delay of 300; the saving delay is then set to 1000, the
  governance part unchanged, and the handler of the settings update has run; the next
  edit, at time 0, schedules its flush for time 300, and the call to the parser is made
  at time 300.
\<close>

theorem C8_delay_counterexample:
  "savingDelay (editor settings_1000) = 1000
   \<and> listener (content_change 0 ''x''
        (on_settings_update settings_1000 settings_1000 settings_300 service_listening))
       = Some \<lparr>wait = 300, timeout = Some 300\<rparr>
   \<and> parserSvc_parse (advance 1000 (content_change 0 ''x''
        (on_settings_update settings_1000 settings_1000 settings_300 service_listening)))
       = [(300, ''file:///a.yaml'', ''x'')]"
proof -
  have u: "on_settings_update settings_1000 settings_1000 settings_300 service_listening
      = service_listening"
    by (simp add: on_settings_update_def settings_1000_def settings_300_def)
  have l: "listener service_listening = Some \<lparr>wait = 300, timeout = None\<rparr>"
    by (simp add: service_listening_eq)
  let ?s = "content_change 0 ''x'' service_listening"
  have c: "?s = service_listening
      \<lparr>monaco := (monaco service_listening)
         \<lparr>model_value := (model_value (monaco service_listening))(model_ref model_a := ''x'')\<rparr>,
       listener := Some \<lparr>wait = 300, timeout = Some 300\<rparr>\<rparr>"
    by (simp add: content_change_eq [OF l service_listening_model])
  have l': "listener ?s = Some \<lparr>wait = 300, timeout = Some 300\<rparr>" by (simp add: c)
  have t': "timeout \<lparr>wait = 300, timeout = Some 300\<rparr> = Some 300" by simp
  have o0: "orphan_timers service_listening = []"
    by (simp add: service_listening_eq example_service_def)
  have p0: "parserSvc_parse service_listening = []"
    by (simp add: service_listening_eq example_service_def)
  have o': "orphan_timers ?s = []" by (simp add: c o0)
  have g': "getCurrentModel ?s = Some model_a"
    using service_listening_model by (simp add: c getCurrentModel_def)
  have p: "parserSvc_parse ?s = []" by (simp add: c p0)
  have v: "model_getValue model_a (monaco ?s) = ''x''" by (simp add: c model_getValue_def)
  have "parserSvc_parse (advance 1000 ?s) = [(300, ''file:///a.yaml'', ''x'')]"
    by (simp add: advance_fire [OF l' t' _ o' g'] p v) (simp add: model_a_def)
  then show ?thesis by (simp add: u l') (simp add: settings_1000_def)
qed

text \<open>
  Claim C8, amended: the delay is read from the settings once, when the debounced
  listener is built, and every flush scheduled through that listener uses it, one delay
  after the edit. A changed saving delay takes effect only once the subscription has
  been rebuilt: the handler of a settings update either leaves the subscribed listener
  as it is or replaces it by one built from the settings read at that moment.
\<close>

theorem C8_delay_captured:
  "listener (configureEditor current s) =
     Some \<lparr>wait = savingDelay (editor current), timeout = None\<rparr>
   \<and> (listener s = Some d \<and> getCurrentModel s = Some model \<longrightarrow>
        listener (content_change now body s) = Some (d\<lparr>timeout := Some (now + wait d)\<rparr>))
   \<and> (listener s = Some d \<longrightarrow>
        listener (on_settings_update current settings prevSettings s) = Some d
      \<or> listener (on_settings_update current settings prevSettings s) =
          Some \<lparr>wait = savingDelay (editor current), timeout = None\<rparr>)"
proof (intro conjI impI)
  show "listener (configureEditor current s) =
      Some \<lparr>wait = savingDelay (editor current), timeout = None\<rparr>"
    by (simp add: configureEditor_def onChangeContent_def debounce_def)
next
  assume "listener s = Some d \<and> getCurrentModel s = Some model"
  then show "listener (content_change now body s) = Some (d\<lparr>timeout := Some (now + wait d)\<rparr>)"
    by (simp add: content_change_eq [of s d model])
next
  assume "listener s = Some d"
  then show "listener (on_settings_update current settings prevSettings s) = Some d
      \<or> listener (on_settings_update current settings prevSettings s) =
          Some \<lparr>wait = savingDelay (editor current), timeout = None\<rparr>"
    by (simp add: on_settings_update_def onChangeContent_def debounce_def)
qed

theorem C8_delay_captured_witness:
  "listener service_listening = Some \<lparr>wait = 300, timeout = None\<rparr>
   \<and> getCurrentModel service_listening = Some model_a
   \<and> listener (configureEditor settings_1000 service_listening) =
       Some \<lparr>wait = 1000, timeout = None\<rparr>
   \<and> listener (content_change 7 ''x'' service_listening) = Some \<lparr>wait = 300, timeout = Some 307\<rparr>
   \<and> (listener (on_settings_update settings_1000 settings_1000 settings_300 service_listening)
         = Some \<lparr>wait = 300, timeout = None\<rparr>
      \<or> listener (on_settings_update settings_1000 settings_1000 settings_300 service_listening)
         = Some \<lparr>wait = 1000, timeout = None\<rparr>)"
proof -
  have h1: "listener service_listening = Some \<lparr>wait = 300, timeout = None\<rparr>"
    by (simp add: service_listening_eq)
  have e: "savingDelay (editor settings_1000) = 1000" by (simp add: settings_1000_def)
  from C8_delay_captured [of settings_1000 service_listening "\<lparr>wait = 300, timeout = None\<rparr>"
      model_a 7 "''x''" settings_1000 settings_300]
    h1 service_listening_model e
  show ?thesis by simp
qed

section \<open>Properties of \<open>updateState\<close>\<close>

text \<open>What the call does once it goes past its two early returns.\<close>

lemma updateState_proceeds:
  assumes "content args = Some body"
    and "map_option f_content (files s ''asyncapi'') \<noteq> Some body"
    and "truthy (resolve_language rl (effective_file args) body)"
  shows "socketClientSvc_send (updateState rl now args s) =
           socketClientSvc_send s @
           (if sendToServer args = Some False then [] else [(''file:update'', body)])"
    and "model_value (monaco (updateState rl now args s)) =
           (case (if updateModel args = Some True then getCurrentModel s else None) of
              None \<Rightarrow> model_value (monaco s)
            | Some model \<Rightarrow> (model_value (monaco s))(model_ref model := body))"
    and "files (updateState rl now args s) = files s"
    and "filesSvc_updateFile (updateState rl now args s) =
           filesSvc_updateFile s @
           [(''asyncapi'',
             update_patch (resolve_language rl (effective_file args) body) body
               (localStorage s ''document'' \<noteq> Some body) (effective_file args))]"
  using assms
  by (auto simp: updateState_def Let_def getCurrentModel_def model_setValue_def
      onDidChangeModelContent_def getFromLocalStorage_def split: option.splits)

text \<open>
  Claim C9: \<open>updateState\<close> returns the state as it was (file registry, widget and
  socket client included) when the content is not a string, when it equals the current
  content of the file \<open>asyncapi\<close>, and when no language is found for it. Otherwise the
  message \<open>file:update\<close> with the content is handed to the socket client exactly when
  \<open>sendToServer\<close> is not false, and otherwise nothing is; the text of the bound text
  model is replaced by the content exactly when \<open>updateModel\<close> is true and the editor
  exists with a text model bound, and otherwise no text model changes; the registry is
  touched only through the one call of \<open>updateFile\<close>.
\<close>

theorem C9_updateState_frame:
  "(content args1 = None \<longrightarrow> updateState rl now args1 s = s)
   \<and> (content args2 = Some body2 \<and> map_option f_content (files s ''asyncapi'') = Some body2 \<longrightarrow>
        updateState rl now args2 s = s)
   \<and> (content args3 = Some body3 \<and> \<not> truthy (resolve_language rl (effective_file args3) body3) \<longrightarrow>
        updateState rl now args3 s = s)
   \<and> (content args = Some body \<and> map_option f_content (files s ''asyncapi'') \<noteq> Some body
        \<and> truthy (resolve_language rl (effective_file args) body) \<longrightarrow>
        socketClientSvc_send (updateState rl now args s) =
          socketClientSvc_send s @
          (if sendToServer args = Some False then [] else [(''file:update'', body)])
      \<and> model_value (monaco (updateState rl now args s)) =
          (case (if updateModel args = Some True then getCurrentModel s else None) of
             None \<Rightarrow> model_value (monaco s)
           | Some model \<Rightarrow> (model_value (monaco s))(model_ref model := body))
      \<and> files (updateState rl now args s) = files s
      \<and> filesSvc_updateFile (updateState rl now args s) =
          filesSvc_updateFile s @
          [(''asyncapi'',
            update_patch (resolve_language rl (effective_file args) body) body
              (localStorage s ''document'' \<noteq> Some body) (effective_file args))])"
proof (intro conjI impI)
  assume "content args1 = None"
  then show "updateState rl now args1 s = s" by (simp add: updateState_def)
next
  assume "content args2 = Some body2 \<and> map_option f_content (files s ''asyncapi'') = Some body2"
  then show "updateState rl now args2 s = s" by (simp add: updateState_def)
next
  assume "content args3 = Some body3 \<and> \<not> truthy (resolve_language rl (effective_file args3) body3)"
  then show "updateState rl now args3 s = s" by (simp add: updateState_def Let_def)
next
  assume a: "content args = Some body \<and> map_option f_content (files s ''asyncapi'') \<noteq> Some body
        \<and> truthy (resolve_language rl (effective_file args) body)"
  then have c: "content args = Some body"
    and n: "map_option f_content (files s ''asyncapi'') \<noteq> Some body"
    and t: "truthy (resolve_language rl (effective_file args) body)"
    by simp_all
  show "socketClientSvc_send (updateState rl now args s) =
          socketClientSvc_send s @
          (if sendToServer args = Some False then [] else [(''file:update'', body)])"
    by (rule updateState_proceeds(1) [OF c n t])
  show "model_value (monaco (updateState rl now args s)) =
          (case (if updateModel args = Some True then getCurrentModel s else None) of
             None \<Rightarrow> model_value (monaco s)
           | Some model \<Rightarrow> (model_value (monaco s))(model_ref model := body))"
    by (rule updateState_proceeds(2) [OF c n t])
  show "files (updateState rl now args s) = files s"
    by (rule updateState_proceeds(3) [OF c n t])
  show "filesSvc_updateFile (updateState rl now args s) =
          filesSvc_updateFile s @
          [(''asyncapi'',
            update_patch (resolve_language rl (effective_file args) body) body
              (localStorage s ''document'' \<noteq> Some body) (effective_file args))]"
    by (rule updateState_proceeds(4) [OF c n t])
qed

theorem C9_updateState_frame_witness:
  "content (update_of None None None) = None
   \<and> content (update_of (Some ''old'') (Some True) None) = Some ''old''
   \<and> map_option f_content (files service_on_a ''asyncapi'') = Some ''old''
   \<and> content (update_of (Some ''???'') (Some True) None) = Some ''???''
   \<and> \<not> truthy (resolve_language example_retrieveLangauge
            (effective_file (update_of (Some ''???'') (Some True) None)) ''???'')
   \<and> content (update_of (Some ''new'') (Some True) None) = Some ''new''
   \<and> map_option f_content (files service_on_a ''asyncapi'') \<noteq> Some ''new''
   \<and> truthy (resolve_language example_retrieveLangauge
          (effective_file (update_of (Some ''new'') (Some True) None)) ''new'')
   \<and> updateState example_retrieveLangauge 0 (update_of None None None) service_on_a = service_on_a
   \<and> updateState example_retrieveLangauge 0 (update_of (Some ''old'') (Some True) None) service_on_a
       = service_on_a
   \<and> updateState example_retrieveLangauge 0 (update_of (Some ''???'') (Some True) None) service_on_a
       = service_on_a
   \<and> socketClientSvc_send
        (updateState example_retrieveLangauge 0 (update_of (Some ''new'') (Some True) None)
           service_on_a) = [(''file:update'', ''new'')]
   \<and> model_value (monaco
        (updateState example_retrieveLangauge 0 (update_of (Some ''new'') (Some True) None)
           service_on_a)) 0 = ''new''"
proof -
  have f0: "files service_on_a ''asyncapi'' =
      Some \<lparr>f_uri = ''asyncapi'', f_content = ''old'', f_language = ''yaml''\<rparr>"
    by (simp add: service_on_a_eq example_service_def example_files_def)
  have l3: "\<not> truthy (resolve_language example_retrieveLangauge
            (effective_file (update_of (Some ''???'') (Some True) None)) ''???'')"
    by (simp add: truthy_def resolve_language_def example_retrieveLangauge_def
        effective_file_def update_of_def empty_file_def)
  have l4: "truthy (resolve_language example_retrieveLangauge
          (effective_file (update_of (Some ''new'') (Some True) None)) ''new'')"
    by (simp add: truthy_def resolve_language_def example_retrieveLangauge_def
        effective_file_def update_of_def empty_file_def)
  have g: "getCurrentModel service_on_a = Some model_a"
    by (simp add: service_on_a_eq getCurrentModel_def editor_on_a_def)
  have k: "socketClientSvc_send service_on_a = []"
    by (simp add: service_on_a_eq example_service_def)
  have c: "\<And>x u v. content (update_of x u v) = x"
    "\<And>x u v. updateModel (update_of x u v) = u"
    "\<And>x u v. sendToServer (update_of x u v) = v"
    by (simp_all add: update_of_def)
  from C9_updateState_frame [of "update_of None None None" example_retrieveLangauge 0 service_on_a
      "update_of (Some ''old'') (Some True) None" "''old''"
      "update_of (Some ''???'') (Some True) None" "''???''"
      "update_of (Some ''new'') (Some True) None" "''new''"]
    l3 l4
  show ?thesis by (simp add: c g k f0 model_a_def)
qed

end
